theory Spec2Isabelle
  imports Main "HOL-Library.AList"
begin

section \<open>Python values, exceptions and the log\<close>

text \<open>
  The development embeds \<^verbatim>\<open>src/utils/project_classes.py\<close>. A Python \<^verbatim>\<open>str\<close> is a
  \<^typ>\<open>string\<close> whose characters are read as the code points 0..255; code points beyond
  that range are not represented. Python's unbounded \<^verbatim>\<open>int\<close> is \<^typ>\<open>int\<close>.
  An insertion-ordered \<^verbatim>\<open>dict\<close> is an association list written with
  \<^const>\<open>AList.update\<close> and read with \<^const>\<open>map_of\<close>.

  Only instances of \<^verbatim>\<open>Exception\<close> are modelled (what \<^verbatim>\<open>except Exception\<close> catches);
  an exception is its class and the text \<^verbatim>\<open>str(e)\<close>.
\<close>

datatype exn_class =
    ValueError | IndexError | KeyError | AttributeError | TypeError
  | UnicodeDecodeError
  | MissingSectionHeaderError | DuplicateSectionError | DuplicateOptionError | ParsingError
  | NoSectionError | InterpolationError
  | HTTPError
  | OperationalError | ProgrammingError | IntegrityError | RaiseException
  | OtherException

datatype py_error = Exn exn_class string

fun str_exn :: "py_error \<Rightarrow> string" where
  "str_exn (Exn c msg) = msg"

datatype level = DEBUG | INFO | CRITICAL

type_synonym logger = "(level \<times> string) list"

datatype pyval = PyInt int | PyStr string

type_synonym pydict = "(string \<times> pyval) list"

subsection \<open>Decimal text of numbers, as an f-string prints them\<close>

definition digit_char :: "nat \<Rightarrow> char" where
  "digit_char d = ''0123456789'' ! (d mod 10)"

function str_nat :: "nat \<Rightarrow> string" where
  "str_nat n = (if n < 10 then [digit_char n] else str_nat (n div 10) @ [digit_char n])"
  by pat_completeness auto
termination
  by (relation "measure (\<lambda>n. n)") auto

definition str_int :: "int \<Rightarrow> string" where
  "str_int i = (if i < 0 then CHR ''-'' # str_nat (nat (- i)) else str_nat (nat i))"

section \<open>parse\_config\<close>

text \<open>
  \<^verbatim>\<open>ConfigParser\<close> is a library. A parser that has read a file is represented by what
  it answers: the sections in file order, each with what \<^verbatim>\<open>parser.items(section)\<close> does,
  which is to yield the pairs of the section or to raise (a value whose interpolation
  fails, such as one with a lone \<^verbatim>\<open>%\<close>). \<^verbatim>\<open>has_section\<close> and \<^verbatim>\<open>sections\<close> both read
  the same section table.
\<close>

type_synonym parser = "(string \<times> (py_error + (string \<times> string) list)) list"

definition sections :: "parser \<Rightarrow> string list" where
  "sections p = map fst p"

definition has_section :: "parser \<Rightarrow> string \<Rightarrow> bool" where
  "has_section p s \<longleftrightarrow> s \<in> set (sections p)"

definition items :: "parser \<Rightarrow> string \<Rightarrow> py_error + (string \<times> string) list" where
  "items p s =
     (case map_of p s of
        None \<Rightarrow> Inl (Exn NoSectionError (''No section: '' @ [CHR 0x27] @ s @ [CHR 0x27]))
      | Some answer \<Rightarrow> answer)"

text \<open>
  Line 57, \<^verbatim>\<open>parser.read(filename)\<close> on the fresh parser of line 56, is a parameter: given
  the file name it raises (a file without a section header, a section or an option given
  twice, a line that cannot be parsed, bytes that cannot be decoded) or leaves the parser
  that has read the file. A file that is absent or cannot be opened is skipped without an
  exception and leaves the parser with no section.
\<close>

type_synonym reader = "string \<Rightarrow> py_error + parser"

text \<open>
  \<^verbatim>\<open>str.isdigit()\<close>: true when the string is not empty and every character has the
  Unicode property Numeric\_Type Digit or Decimal. Among the code points 0..255 these are
  the ASCII digits and the superscripts U+00B2, U+00B3 and U+00B9.
  \<^verbatim>\<open>int(v)\<close> accepts, of the strings that pass \<^verbatim>\<open>isdigit\<close>, only those made of decimal
  digits, and raises \<^verbatim>\<open>ValueError\<close> on the others; \<open>py_int\<close> is \<^verbatim>\<open>int\<close> on the
  strings line 68 can hand to it. \<^verbatim>\<open>int\<close> first counts the decimal digits the string
  starts with and refuses more than 4300 of them (the interpreter's default limit).
\<close>

definition isdecimal_char :: "char \<Rightarrow> bool" where
  "isdecimal_char c \<longleftrightarrow> 48 \<le> (of_char c :: nat) \<and> (of_char c :: nat) \<le> 57"

definition isdigit_char :: "char \<Rightarrow> bool" where
  "isdigit_char c \<longleftrightarrow>
     isdecimal_char c \<or> (of_char c :: nat) = 178 \<or> (of_char c :: nat) = 179
       \<or> (of_char c :: nat) = 185"

definition isdigit :: "string \<Rightarrow> bool" where
  "isdigit v \<longleftrightarrow> v \<noteq> [] \<and> list_all isdigit_char v"

definition decimal_value :: "string \<Rightarrow> int" where
  "decimal_value v = foldl (\<lambda>acc c. 10 * acc + (int (of_char c) - 48)) 0 v"

definition max_str_digits :: nat where
  "max_str_digits = 4300"

definition py_int :: "string \<Rightarrow> py_error + int" where
  "py_int v =
     (let digits = length (takeWhile isdecimal_char v) in
      if digits > max_str_digits then
        Inl (Exn ValueError
              (''Exceeds the limit ('' @ str_nat max_str_digits
                 @ '' digits) for integer string conversion: value has '' @ str_nat digits
                 @ '' digits; use sys.set_int_max_str_digits() to increase the limit''))
      else if v \<noteq> [] \<and> list_all isdecimal_char v then Inr (decimal_value v)
      else Inl (Exn ValueError
             (''invalid literal for int() with base 10: '' @ [CHR 0x27] @ v @ [CHR 0x27])))"

text \<open>Line 68: \<^verbatim>\<open>int(v) if v.isdigit() else v\<close>.\<close>

definition convert_value :: "string \<Rightarrow> py_error + pyval" where
  "convert_value v =
     (if isdigit v then (case py_int v of Inl e \<Rightarrow> Inl e | Inr n \<Rightarrow> Inr (PyInt n))
      else Inr (PyStr v))"

text \<open>
  The inner comprehension (lines 66 to 70) builds one dict from the items of a section,
  left to right; the first \<^verbatim>\<open>int\<close> that raises ends it.
\<close>

fun section_dict :: "(string \<times> string) list \<Rightarrow> pydict \<Rightarrow> py_error + pydict" where
  "section_dict [] acc = Inr acc"
| "section_dict ((k, v) # kvs) acc =
     (case convert_value v of
        Inl e \<Rightarrow> Inl e
      | Inr x \<Rightarrow> section_dict kvs (AList.update k x acc))"

text \<open>The outer comprehension (lines 65 to 72), over \<^verbatim>\<open>parser.sections()\<close>.\<close>

fun config_dict_of ::
  "parser \<Rightarrow> string list \<Rightarrow> (string \<times> pydict) list \<Rightarrow> py_error + (string \<times> pydict) list" where
  "config_dict_of p [] acc = Inr acc"
| "config_dict_of p (s # ss) acc =
     (case items p s of
        Inl e \<Rightarrow> Inl e
      | Inr kvs \<Rightarrow>
          (case section_dict kvs [] of
             Inl e \<Rightarrow> Inl e
           | Inr d \<Rightarrow> config_dict_of p ss (AList.update s d acc)))"

definition missing_section_msg :: "string \<Rightarrow> string \<Rightarrow> string" where
  "missing_section_msg required_section filename =
     ''Required section '' @ [CHR 0x27] @ required_section @ [CHR 0x27]
       @ '' not found in the '' @ filename @ '' file''"

text \<open>
  \<^verbatim>\<open>parse_config(logger, filename, required_section)\<close>, lines 52 to 74, with the files it
  can read as \<open>read\<close>. The result pairs what the call raises or returns with the logger's
  records after the call. An exception of line 57 leaves the function at once, before the
  only \<^verbatim>\<open>logger.critical\<close> of the function.
\<close>

definition parse_config ::
  "reader \<Rightarrow> logger \<Rightarrow> string \<Rightarrow> string
     \<Rightarrow> (py_error + (string \<times> pydict) list) \<times> logger" where
  "parse_config read lg filename required_section =
     (case read filename of
        Inl e \<Rightarrow> (Inl e, lg)
      | Inr p \<Rightarrow>
          if \<not> has_section p required_section then
            (let msg = missing_section_msg required_section filename
             in (Inl (Exn ValueError msg), lg @ [(CRITICAL, msg)]))
          else (config_dict_of p (sections p) [], lg))"

section \<open>Data frames, the database and the outside world\<close>

text \<open>
  A \<^verbatim>\<open>pandas.DataFrame\<close> is held by column: the length of its index (\<^verbatim>\<open>len(df)\<close>) and
  its columns in order, each with its values. \<^verbatim>\<open>df.empty\<close> is true when either axis has
  length 0.
\<close>

datatype cell = Null | Num int | Text string | Timestamp string

record dataframe =
  index_len :: nat
  columns :: "(string \<times> cell list) list"

definition df_empty :: "dataframe \<Rightarrow> bool" where
  "df_empty df \<longleftrightarrow> index_len df = 0 \<or> columns df = []"

type_synonym row = "(string \<times> cell) list"

text \<open>The rows \<^verbatim>\<open>to_sql\<close> sends; every column of a frame has \<open>index_len\<close> values.\<close>

definition df_rows :: "dataframe \<Rightarrow> row list" where
  "df_rows df = map (\<lambda>i. map (\<lambda>(name, col). (name, col ! i)) (columns df)) [0..<index_len df]"

record database =
  raw_data :: "row list"

text \<open>
  What \<^verbatim>\<open>query_local_db\<close> hands back: the fetched rows, or the one-element list
  \<^verbatim>\<open>["No data to return"]\<close> when the statement has no result set.
\<close>

datatype sql_result = Rows "cell list list" | NoData

fun len_result :: "sql_result \<Rightarrow> nat" where
  "len_result (Rows rs) = length rs"
| "len_result NoData = 1"

record page_info =
  page :: int
  per_page :: int
  total :: int

text \<open>
  The collaborators the program calls are parameters: the HTTP endpoint together with the
  decoding of its answer (\<open>http_get\<close>, given the number of earlier requests, the
  \<^verbatim>\<open>base_url\<close> value and the query parameters), the database server running one
  statement (\<open>execute\<close>), \<^verbatim>\<open>pd.to_datetime\<close> on a column, and the failures of
  \<^verbatim>\<open>DataFrame.to_sql\<close> and of building the final frame and writing it as CSV (given
  the path, the column names and the data). Each may raise.
\<close>

record world =
  http_get :: "nat \<Rightarrow> pyval \<Rightarrow> pydict \<Rightarrow> py_error + dataframe \<times> page_info"
  execute :: "string \<Rightarrow> database \<Rightarrow> py_error + sql_result \<times> database"
  to_datetime :: "cell list \<Rightarrow> py_error + cell list"
  to_sql_error :: "dataframe \<Rightarrow> database \<Rightarrow> py_error option"
  to_csv_error :: "string \<Rightarrow> cell list \<Rightarrow> sql_result \<Rightarrow> py_error option"

text \<open>
  Everything a run can change: the store of dict objects (the sections of the
  configuration live here, one object each), the database, the logger's records, the
  files written and the number of HTTP requests made.
\<close>

record state =
  heap :: "nat \<Rightarrow> pydict"
  db :: database
  log :: logger
  files :: "string \<Rightarrow> (cell list \<times> sql_result) option"
  requests :: nat

definition log_msg :: "level \<Rightarrow> string \<Rightarrow> state \<Rightarrow> state" where
  "log_msg lv msg st = st\<lparr>log := log st @ [(lv, msg)]\<rparr>"

section \<open>query\_local\_db\<close>

definition db_error_caught :: "py_error \<Rightarrow> bool" where
  "db_error_caught e \<longleftrightarrow>
     (case e of Exn c msg \<Rightarrow>
        c = OperationalError \<or> c = ProgrammingError \<or> c = IntegrityError \<or> c = RaiseException)"

text \<open>
  Lines 76 to 107. The four caught categories are logged at critical severity and raised
  again; any other exception leaves without a record. A failed statement leaves the
  database as it was (\<^verbatim>\<open>engine.begin()\<close> rolls back).
\<close>

definition query_local_db :: "world \<Rightarrow> string \<Rightarrow> state \<Rightarrow> (py_error + sql_result) \<times> state" where
  "query_local_db w query st =
     (case execute w query (db st) of
        Inl e \<Rightarrow>
          (Inl e,
           if db_error_caught e
           then log_msg CRITICAL (query @ '' failed with '' @ str_exn e) st
           else st)
      | Inr (result, d) \<Rightarrow>
          (Inr result, log_msg DEBUG (query @ '' executed'') (st\<lparr>db := d\<rparr>)))"

section \<open>The Truvi object\<close>

text \<open>
  \<^verbatim>\<open>Truvi.__init__\<close> (lines 112 to 121) stores, for every section of the configuration,
  a reference to that section's dict under the section's name. \<open>config_dict\<close> maps a
  section name to the address of its dict in the store; the attribute receives the same
  address. Section names are taken to differ from the object's own attribute and method
  names.
\<close>

record truvi =
  attrs :: "(string \<times> nat) list"
  output_folder :: string

fun setattrs :: "(string \<times> nat) list \<Rightarrow> (string \<times> nat) list \<Rightarrow> (string \<times> nat) list" where
  "setattrs [] acc = acc"
| "setattrs ((section, params) # rest) acc = setattrs rest (AList.update section params acc)"

definition Truvi_init :: "(string \<times> nat) list \<Rightarrow> string \<Rightarrow> truvi" where
  "Truvi_init config_dict folder = \<lparr>attrs = setattrs config_dict [], output_folder = folder\<rparr>"

text \<open>Placing the value \<^const>\<open>parse_config\<close> returned into the store, section \<open>i\<close> at address \<open>i\<close>.\<close>

definition config_refs :: "(string \<times> pydict) list \<Rightarrow> (string \<times> nat) list" where
  "config_refs cfg = zip (map fst cfg) [0..<length cfg]"

definition config_heap :: "(string \<times> pydict) list \<Rightarrow> nat \<Rightarrow> pydict" where
  "config_heap cfg a = (if a < length cfg then snd (cfg ! a) else [])"

text \<open>The configuration as a value again: each section with the present content of its dict.\<close>

definition read_config :: "(string \<times> nat) list \<Rightarrow> state \<Rightarrow> (string \<times> pydict) list" where
  "read_config config_dict st = map (\<lambda>(section, a). (section, heap st a)) config_dict"

definition attribute_error :: "string \<Rightarrow> py_error" where
  "attribute_error name =
     Exn AttributeError
       ([CHR 0x27] @ ''Truvi'' @ [CHR 0x27] @ '' object has no attribute ''
          @ [CHR 0x27] @ name @ [CHR 0x27])"

definition key_error :: "string \<Rightarrow> py_error" where
  "key_error k = Exn KeyError ([CHR 0x27] @ k @ [CHR 0x27])"

subsection \<open>get\_api\_data\<close>

text \<open>
  Lines 123 to 145. \<open>api_parameters\<close> is the address of the dict passed as
  \<^verbatim>\<open>params\<close>; the request sees its content at the time of the call.
\<close>

definition get_api_data ::
  "world \<Rightarrow> truvi \<Rightarrow> nat \<Rightarrow> state \<Rightarrow> (py_error + dataframe \<times> page_info) \<times> state" where
  "get_api_data w self api_parameters st =
     (case map_of (attrs self) ''api'' of
        None \<Rightarrow> (Inl (attribute_error ''api''), st)
      | Some a \<Rightarrow>
          (case map_of (heap st a) ''base_url'' of
             None \<Rightarrow> (Inl (key_error ''base_url''), st)
           | Some base_url \<Rightarrow>
               (http_get w (requests st) base_url (heap st api_parameters),
                st\<lparr>requests := Suc (requests st)\<rparr>)))"

subsection \<open>check\_write\_df\<close>

text \<open>
  The loop of lines 160 to 163 over the keys of \<^verbatim>\<open>self.table_values\<close>: a key that names a
  column has that column replaced by its conversion, in the frame the caller passed.
\<close>

fun convert_columns ::
  "world \<Rightarrow> string list \<Rightarrow> dataframe \<Rightarrow> state \<Rightarrow> (py_error + unit) \<times> dataframe \<times> state" where
  "convert_columns w [] df st = (Inr (), df, st)"
| "convert_columns w (key # keys) df st =
     (case map_of (columns df) key of
        None \<Rightarrow> convert_columns w keys df st
      | Some col \<Rightarrow>
          (case to_datetime w col of
             Inl e \<Rightarrow> (Inl e, df, st)
           | Inr col' \<Rightarrow>
               convert_columns w keys
                 (df\<lparr>columns := AList.update key col' (columns df)\<rparr>)
                 (log_msg DEBUG (''Converted '' @ key @ '' to datetime'') st)))"

text \<open>\<^verbatim>\<open>df.to_sql(schema="data", name="raw_data", if_exists="append", index=False)\<close>.\<close>

definition to_sql :: "world \<Rightarrow> dataframe \<Rightarrow> database \<Rightarrow> py_error + database" where
  "to_sql w df d =
     (case to_sql_error w df d of
        Some e \<Rightarrow> Inl e
      | None \<Rightarrow> Inr (d\<lparr>raw_data := raw_data d @ df_rows df\<rparr>))"

definition column_count_msg :: "nat \<Rightarrow> string" where
  "column_count_msg cols = ''df has '' @ str_nat cols @ '' columns, expected 5''"

text \<open>
  Lines 147 to 167. The result is what the call raises or returns, the frame as the call
  leaves it (it is changed in place) and the state.
\<close>

definition check_write_df ::
  "world \<Rightarrow> truvi \<Rightarrow> state \<Rightarrow> dataframe \<Rightarrow> (py_error + unit) \<times> dataframe \<times> state" where
  "check_write_df w self st df =
     (if df_empty df then (Inr (), df, log_msg INFO ''Empty DataFrame'' st)
      else
        (let cols = length (columns df) in
         if cols \<noteq> 5 then (Inl (Exn IndexError (column_count_msg cols)), df, st)
         else
           (case map_of (attrs self) ''table_values'' of
              None \<Rightarrow> (Inl (attribute_error ''table_values''), df, st)
            | Some a \<Rightarrow>
                (case convert_columns w (map fst (heap st a)) df st of
                   (Inl e, df1, st1) \<Rightarrow> (Inl e, df1, st1)
                 | (Inr u, df1, st1) \<Rightarrow>
                     (case to_sql w df1 (db st1) of
                        Inl e \<Rightarrow> (Inl e, df1, st1)
                      | Inr d \<Rightarrow>
                          (Inr (), df1,
                           log_msg DEBUG ''Dataframe written to database''
                             (st1\<lparr>db := d\<rparr>)))))))"

subsection \<open>post\_processing\<close>

definition select_final :: string where
  "select_final = ''SELECT * FROM data.final_table;''"

definition select_columns :: string where
  "select_columns =
     [CHR 0x0A] @ ''                SELECT column_name''
     @ [CHR 0x0A] @ ''                FROM information_schema.columns''
     @ [CHR 0x0A] @ ''                WHERE table_schema = '' @ [CHR 0x27] @ ''data'' @ [CHR 0x27]
     @ '' AND table_name = '' @ [CHR 0x27] @ ''final_table'' @ [CHR 0x27]
     @ [CHR 0x0A] @ ''            ''"

text \<open>
  Line 193, \<^verbatim>\<open>[row[0] for row in raw_cols]\<close>: the first field of every row; an empty row
  raises, and the one string of the no-result list yields its first character.
\<close>

fun first_fields :: "cell list list \<Rightarrow> py_error + cell list" where
  "first_fields [] = Inr []"
| "first_fields ([] # rest) = Inl (Exn IndexError ''tuple index out of range'')"
| "first_fields ((c # cs) # rest) =
     (case first_fields rest of Inl e \<Rightarrow> Inl e | Inr names \<Rightarrow> Inr (c # names))"

fun column_names :: "sql_result \<Rightarrow> py_error + cell list" where
  "column_names (Rows rs) = first_fields rs"
| "column_names NoData = Inr [Text ''N'']"

text \<open>\<^verbatim>\<open>os.path.join\<close> of a folder and a file name, on POSIX.\<close>

definition path_join :: "string \<Rightarrow> string \<Rightarrow> string" where
  "path_join folder name =
     (if folder = [] then name
      else if last folder = CHR ''/'' then folder @ name
      else folder @ ''/'' @ name)"

text \<open>
  Lines 169 to 204. Building the frame and writing it are one step of the library, which
  may raise; when it does not, the file at the output path holds the column names and the
  data. What a write that raises leaves on disk is not represented.
\<close>

definition post_processing :: "world \<Rightarrow> truvi \<Rightarrow> state \<Rightarrow> (py_error + unit) \<times> state" where
  "post_processing w self st =
     (case query_local_db w select_final st of
        (Inl e, st1) \<Rightarrow> (Inl e, st1)
      | (Inr data, st1) \<Rightarrow>
          if len_result data = 0
          then (Inl (Exn ValueError ''No data in view, please check''), st1)
          else
            (case query_local_db w select_columns st1 of
               (Inl e, st2) \<Rightarrow> (Inl e, st2)
             | (Inr raw_cols, st2) \<Rightarrow>
                 (case column_names raw_cols of
                    Inl e \<Rightarrow> (Inl e, st2)
                  | Inr cols \<Rightarrow>
                      (let output_path = path_join (output_folder self) ''final_table.csv'' in
                       case to_csv_error w output_path cols data of
                         Some e \<Rightarrow> (Inl e, st2)
                       | None \<Rightarrow>
                           (Inr (),
                            log_msg INFO (''Final table written to csv in '' @ output_path)
                              (st2\<lparr>files := (files st2)(output_path \<mapsto> (cols, data))\<rparr>))))))"

subsection \<open>main\<close>

text \<open>
  Line 234, \<^verbatim>\<open>api_parameters["page"] += 1\<close>, on the dict at address \<open>api_parameters\<close>:
  a missing key and a string value raise.
\<close>

definition increment_page :: "nat \<Rightarrow> state \<Rightarrow> (py_error + unit) \<times> state" where
  "increment_page api_parameters st =
     (case map_of (heap st api_parameters) ''page'' of
        None \<Rightarrow> (Inl (key_error ''page''), st)
      | Some (PyInt n) \<Rightarrow>
          (Inr (),
           st\<lparr>heap := (heap st)
                 (api_parameters := AList.update ''page'' (PyInt (n + 1)) (heap st api_parameters))\<rparr>)
      | Some (PyStr s) \<Rightarrow>
          (Inl (Exn TypeError
                 (''can only concatenate str (not '' @ [CHR 0x22] @ ''int'' @ [CHR 0x22]
                    @ '') to str'')),
           st))"

definition fetched_msg :: "page_info \<Rightarrow> dataframe \<Rightarrow> string" where
  "fetched_msg info df =
     ''Fetched page '' @ str_int (page info) @ '' with '' @ str_nat (index_len df) @ '' results''"

text \<open>
  The \<^verbatim>\<open>while True\<close> loop of lines 220 to 234. It need not end, so the result is an
  option: \<open>None\<close> is the run that fetches for ever.
\<close>

partial_function (option) page_loop ::
  "world \<Rightarrow> truvi \<Rightarrow> nat \<Rightarrow> state \<Rightarrow> ((py_error + unit) \<times> state) option" where
  "page_loop w self api_parameters st =
     (case get_api_data w self api_parameters st of
        (Inl e, st1) \<Rightarrow> Some (Inl e, st1)
      | (Inr (df, info), st1) \<Rightarrow>
          (case check_write_df w self (log_msg INFO (fetched_msg info df) st1) df of
             (Inl e, df', st2) \<Rightarrow> Some (Inl e, st2)
           | (Inr u, df', st2) \<Rightarrow>
               if page info * per_page info \<ge> total info
               then Some (Inr (), log_msg INFO ''All pages fetched'' st2)
               else
                 (case increment_page api_parameters st2 of
                    (Inl e, st3) \<Rightarrow> Some (Inl e, st3)
                  | (Inr u', st3) \<Rightarrow> page_loop w self api_parameters st3)))"

declare page_loop.simps [code]

definition truncate_raw :: string where
  "truncate_raw = ''truncate table data.raw_data;''"

text \<open>The body of the \<^verbatim>\<open>try\<close>, lines 212 to 237: reset, page loop, post-processing.\<close>

definition try_body ::
  "world \<Rightarrow> truvi \<Rightarrow> nat \<Rightarrow> state \<Rightarrow> ((py_error + unit) \<times> state) option" where
  "try_body w self api_parameters st =
     (case query_local_db w truncate_raw st of
        (Inl e, st1) \<Rightarrow> Some (Inl e, st1)
      | (Inr r, st1) \<Rightarrow>
          (case page_loop w self api_parameters st1 of
             None \<Rightarrow> None
           | Some (Inl e, st2) \<Rightarrow> Some (Inl e, st2)
           | Some (Inr u, st2) \<Rightarrow> Some (post_processing w self st2)))"

text \<open>
  \<^verbatim>\<open>Truvi.main\<close>, lines 206 to 243. Line 209 reads the attribute before the \<^verbatim>\<open>try\<close>
  and binds \<^verbatim>\<open>api_parameters\<close> to the dict object itself, so the address is passed on.
\<close>

definition Truvi_main :: "world \<Rightarrow> truvi \<Rightarrow> state \<Rightarrow> ((py_error + unit) \<times> state) option" where
  "Truvi_main w self st =
     (case map_of (attrs self) ''api_filters'' of
        None \<Rightarrow> Some (Inl (attribute_error ''api_filters''), st)
      | Some api_parameters \<Rightarrow>
          (case try_body w self api_parameters st of
             None \<Rightarrow> None
           | Some (Inl e, st1) \<Rightarrow>
               Some (Inr (),
                     log_msg INFO ''Object function stopped''
                       (log_msg CRITICAL (''Processing failed with '' @ str_exn e) st1))
           | Some (Inr u, st1) \<Rightarrow>
               Some (Inr (), log_msg INFO ''Object function stopped'' st1)))"

subsection \<open>What a run leaves behind\<close>


text \<open>
  Two contents of one dict that have the same keys in the same order and the same value
  under every key other than \<^verbatim>\<open>page\<close>.
\<close>

definition only_page_changed :: "pydict \<Rightarrow> pydict \<Rightarrow> bool" where
  "only_page_changed d d' \<longleftrightarrow>
     map fst d' = map fst d \<and> AList.delete ''page'' d' = AList.delete ''page'' d"

text \<open>
  Between two states the store differs at most at the address \<open>api_parameters\<close>, and
  there only under \<^verbatim>\<open>page\<close>.
\<close>

definition page_frame :: "nat \<Rightarrow> state \<Rightarrow> state \<Rightarrow> bool" where
  "page_frame api_parameters st st' \<longleftrightarrow>
     heap st' = (heap st)(api_parameters := heap st' api_parameters) \<and>
     only_page_changed (heap st api_parameters) (heap st' api_parameters)"


text \<open>
  The configuration an observer reads back once \<^verbatim>\<open>main\<close> has ended, \<open>config_dict\<close> being
  the mapping from section names to dict objects that was handed to the constructor.
\<close>

definition config_after ::
  "world \<Rightarrow> truvi \<Rightarrow> (string \<times> nat) list \<Rightarrow> state \<Rightarrow> (string \<times> pydict) list option" where
  "config_after w self config_dict st =
     map_option (\<lambda>(r, st'). read_config config_dict st') (Truvi_main w self st)"

section \<open>Concrete inputs\<close>

text \<open>Small inputs on which the theorems below are instantiated and the code is run.\<close>

definition frame3 :: dataframe where
  "frame3 =
     \<lparr>index_len = 2,
      columns =
        [(''id'', [Num 1, Num 2]),
         (''guest'', [Text ''ann'', Text ''bob'']),
         (''created_at'', [Text ''2024-01-01'', Text ''2024-01-02''])]\<rparr>"

definition frame0 :: dataframe where
  "frame0 = \<lparr>index_len = 0, columns = []\<rparr>"

definition state0 :: state where
  "state0 =
     \<lparr>heap = (\<lambda>a. []), db = \<lparr>raw_data = []\<rparr>, log = [],
      files = (\<lambda>p. None), requests = 0\<rparr>"

definition quiet_world :: world where
  "quiet_world =
     \<lparr>http_get = (\<lambda>n url params. Inr (frame0, \<lparr>page = 1, per_page = 2, total = 0\<rparr>)),
      execute = (\<lambda>q d. if q = select_final then Inr (Rows [], d) else Inr (NoData, d)),
      to_datetime = (\<lambda>col. Inr col),
      to_sql_error = (\<lambda>df d. None),
      to_csv_error = (\<lambda>path cols data. None)\<rparr>"

definition bare_object :: truvi where
  "bare_object = \<lparr>attrs = [], output_folder = ''/srv/job''\<rparr>"

definition parser_no_database :: parser where
  "parser_no_database = [(''api'', Inr [(''base_url'', ''http://x'')])]"

definition parser_superscript :: parser where
  "parser_superscript =
     [(''Database'', Inr [(''host'', ''localhost''), (''port'', [CHR 0xB2])])]"

definition parser_all_sections :: parser where
  "parser_all_sections =
     [(''Database'', Inr [(''host'', ''localhost''), (''port'', ''5432'')]),
      (''api'', Inr [(''base_url'', ''http://x'')]),
      (''api_filters'', Inr [(''page'', ''1''), (''limit'', [CHR 0xB3])]),
      (''table_values'', Inr [(''created_at'', ''date'')])]"

text \<open>
  A directory in which \<^verbatim>\<open>config.ini\<close> holds the given sections; every other name is
  absent, which \<^verbatim>\<open>read\<close> passes over in silence.
\<close>

definition config_ini :: "parser \<Rightarrow> reader" where
  "config_ini p = (\<lambda>filename. if filename = ''config.ini'' then Inr p else Inr [])"

text \<open>
  The file \<^verbatim>\<open>config.ini\<close> whose only line is \<^verbatim>\<open>host = localhost\<close>: an option with no
  section header above it, at which \<^verbatim>\<open>read\<close> raises.
\<close>

definition headerless_msg :: string where
  "headerless_msg =
     ''File contains no section headers.'' @ [CHR 0x0A]
     @ ''file: '' @ [CHR 0x27] @ ''config.ini'' @ [CHR 0x27] @ '', line: 1'' @ [CHR 0x0A]
     @ [CHR 0x27] @ ''host = localhost'' @ [CHR 0x5C] @ ''n'' @ [CHR 0x27]"

definition config_ini_headerless :: reader where
  "config_ini_headerless =
     (\<lambda>filename. if filename = ''config.ini''
        then Inl (Exn MissingSectionHeaderError headerless_msg) else Inr [])"

text \<open>A batch of two rows without any column, as \<^verbatim>\<open>pd.DataFrame([{}, {}])\<close> builds it.\<close>

definition frame_no_columns :: dataframe where
  "frame_no_columns = \<lparr>index_len = 2, columns = []\<rparr>"

text \<open>
  The run of the specification's end-to-end scenario: page 1 of 2 with \<^verbatim>\<open>per_page\<close> = 2
  and \<^verbatim>\<open>total\<close> = 3, then page 2 with one row. The server answers by the \<^verbatim>\<open>page\<close>
  parameter it is sent; the database empties the table on the reset, shows the raw rows
  as the final view and names five columns.
\<close>

definition frame5 :: dataframe where
  "frame5 =
     \<lparr>index_len = 2,
      columns =
        [(''id'', [Num 1, Num 2]),
         (''guest'', [Text ''ann'', Text ''bob'']),
         (''nights'', [Num 3, Num 1]),
         (''created_at'', [Text ''2024-01-01'', Text ''2024-01-02'']),
         (''updated_at'', [Text ''2024-02-01'', Null])]\<rparr>"

definition frame5_last :: dataframe where
  "frame5_last =
     \<lparr>index_len = 1,
      columns =
        [(''id'', [Num 3]),
         (''guest'', [Text ''cy'']),
         (''nights'', [Num 7]),
         (''created_at'', [Text ''2024-01-03'']),
         (''updated_at'', [Null])]\<rparr>"

definition page1_info :: page_info where
  "page1_info = \<lparr>page = 1, per_page = 2, total = 3\<rparr>"

definition page2_info :: page_info where
  "page2_info = \<lparr>page = 2, per_page = 2, total = 3\<rparr>"

definition paged_world :: world where
  "paged_world =
     \<lparr>http_get = (\<lambda>n url params.
        if map_of params ''page'' = Some (PyInt 1) then Inr (frame5, page1_info)
        else Inr (frame5_last, page2_info)),
      execute = (\<lambda>q d.
        if q = truncate_raw then Inr (NoData, d\<lparr>raw_data := []\<rparr>)
        else if q = select_final then Inr (Rows (map (map snd) (raw_data d)), d)
        else if q = select_columns then
          Inr (Rows [[Text ''id''], [Text ''guest''], [Text ''nights''],
                     [Text ''created_at''], [Text ''updated_at'']], d)
        else Inr (NoData, d)),
      to_datetime = (\<lambda>col. Inr col),
      to_sql_error = (\<lambda>df d. None),
      to_csv_error = (\<lambda>path cols data. None)\<rparr>"


definition run_config :: "(string \<times> pydict) list" where
  "run_config =
     [(''Database'', [(''host'', PyStr ''localhost''), (''port'', PyInt 5432)]),
      (''api'', [(''base_url'', PyStr ''http://x'')]),
      (''api_filters'', [(''page'', PyInt 1), (''per_page'', PyInt 2)]),
      (''table_values'',
       [(''created_at'', PyStr ''timestamp''), (''updated_at'', PyStr ''timestamp'')])]"

definition run_object :: truvi where
  "run_object = Truvi_init (config_refs run_config) ''/srv/job''"

definition run_start :: state where
  "run_start = state0\<lparr>heap := config_heap run_config\<rparr>"





definition run_end :: state where
  "run_end = snd (the (Truvi_main paged_world run_object run_start))"










section \<open>Properties of parse\_config\<close>

text \<open>
  Claim C7, as stated, fails. The file \<^verbatim>\<open>config.ini\<close> with the single line
  \<^verbatim>\<open>host = localhost\<close> is malformed and has no \<^verbatim>\<open>Database\<close> section;
  \<^const>\<open>parse_config\<close> leaves with the \<^verbatim>\<open>MissingSectionHeaderError\<close> of line 57 and the
  logger has received nothing, at critical severity or any other.
\<close>

theorem parse_config_headerless_not_logged:
  "parse_config config_ini_headerless [] ''config.ini'' ''Database'' =
     (Inl (Exn MissingSectionHeaderError headerless_msg), [])"
  by (simp add: parse_config_def config_ini_headerless_def)

text \<open>
  Claim C7, amended. When \<^verbatim>\<open>read\<close> returns (the file was parsed, or was absent) and the
  parser has no section of the required name, \<^const>\<open>parse_config\<close> raises
  \<^verbatim>\<open>ValueError\<close> with the message naming the section and the file, and the logger has
  received exactly one further record, that message at critical severity.
\<close>

theorem parse_config_missing_section:
  "read filename = Inr p \<Longrightarrow> \<not> has_section p required_section \<Longrightarrow>
   parse_config read lg filename required_section =
     (Inl (Exn ValueError (missing_section_msg required_section filename)),
      lg @ [(CRITICAL, missing_section_msg required_section filename)])"
  by (simp add: parse_config_def Let_def)

theorem parse_config_missing_section_witness:
  "config_ini parser_no_database ''config.ini'' = Inr parser_no_database \<and>
   \<not> has_section parser_no_database ''Database'' \<and>
   parse_config (config_ini parser_no_database) [] ''config.ini'' ''Database'' =
     (Inl (Exn ValueError (missing_section_msg ''Database'' ''config.ini'')),
      [(CRITICAL, missing_section_msg ''Database'' ''config.ini'')])"
proof -
  have r: "config_ini parser_no_database ''config.ini'' = Inr parser_no_database"
    by (simp add: config_ini_def)
  have h: "\<not> has_section parser_no_database ''Database''"
    by (simp add: parser_no_database_def has_section_def sections_def)
  show ?thesis
    using parse_config_missing_section
      [where read = "config_ini parser_no_database" and filename = "''config.ini''"
         and lg = "[]", OF r h] r h
    by simp
qed

text \<open>
  Claim C6. The configuration whose \<^verbatim>\<open>Database\<close> section holds \<^verbatim>\<open>port\<close> = U+00B2
  (superscript two) has the required section, and its value passes \<^verbatim>\<open>isdigit\<close>; the
  call does not return a mapping: \<^verbatim>\<open>int\<close> raises \<^verbatim>\<open>ValueError\<close> and nothing is logged.
\<close>

theorem parse_config_superscript_digit_raises:
  "has_section parser_superscript ''Database'' \<and>
   isdigit [CHR 0xB2] \<and>
   parse_config (config_ini parser_superscript) [] ''config.ini'' ''Database'' =
     (Inl (Exn ValueError
            (''invalid literal for int() with base 10: '' @ [CHR 0x27, CHR 0xB2, CHR 0x27])),
      [])"
  by (simp add: parse_config_def config_ini_def parser_superscript_def has_section_def
      sections_def items_def convert_value_def isdigit_def isdigit_char_def
      isdecimal_char_def py_int_def max_str_digits_def)

text \<open>
  Claim C9. A configuration with all of \<^verbatim>\<open>Database\<close>, \<^verbatim>\<open>api\<close>, \<^verbatim>\<open>api_filters\<close>
  and \<^verbatim>\<open>table_values\<close> present, in which one value of \<^verbatim>\<open>api_filters\<close> is U+00B3
  (superscript three): the required section is there and \<^const>\<open>parse_config\<close> raises
  all the same.
\<close>

theorem parse_config_raises_with_required_section:
  "has_section parser_all_sections ''Database'' \<and>
   fst (parse_config (config_ini parser_all_sections) [] ''config.ini'' ''Database'') =
     Inl (Exn ValueError
           (''invalid literal for int() with base 10: '' @ [CHR 0x27, CHR 0xB3, CHR 0x27]))"
  by (simp add: parse_config_def config_ini_def parser_all_sections_def has_section_def
      sections_def items_def convert_value_def isdigit_def isdigit_char_def
      isdecimal_char_def py_int_def decimal_value_def max_str_digits_def)

section \<open>Properties of check\_write\_df\<close>

lemma check_write_df_wrong_columns:
  "\<not> df_empty df \<Longrightarrow> length (columns df) \<noteq> 5 \<Longrightarrow>
   check_write_df w self st df =
     (Inl (Exn IndexError (column_count_msg (length (columns df)))), df, st)"
  by (simp add: check_write_df_def Let_def)

text \<open>
  Claim C4, as stated, fails. The batch of two rows and no column has a column count
  other than 5 and a row count other than 0, and \<^const>\<open>check_write_df\<close> does not raise
  on it: \<^verbatim>\<open>df.empty\<close> holds, the call records \<^verbatim>\<open>Empty DataFrame\<close> and returns.
\<close>

theorem check_write_df_rows_without_columns:
  "index_len frame_no_columns = 2 \<and>
   length (columns frame_no_columns) = 0 \<and>
   check_write_df quiet_world bare_object state0 frame_no_columns =
     (Inr (), frame_no_columns, log_msg INFO ''Empty DataFrame'' state0)"
  by (simp add: check_write_df_def frame_no_columns_def df_empty_def)

text \<open>
  Claim C4, amended. A frame with at least one row and at least one column whose number
  of columns is not 5 makes \<^const>\<open>check_write_df\<close> raise \<^verbatim>\<open>IndexError\<close>, whatever the
  number of rows, and the table \<^verbatim>\<open>raw_data\<close> is as before.
\<close>

theorem check_write_df_column_count_fails:
  "0 < index_len df \<Longrightarrow> columns df \<noteq> [] \<Longrightarrow> length (columns df) \<noteq> 5 \<Longrightarrow>
   fst (check_write_df w self st df) =
     Inl (Exn IndexError (column_count_msg (length (columns df)))) \<and>
   raw_data (db (snd (snd (check_write_df w self st df)))) = raw_data (db st)"
  by (simp add: check_write_df_wrong_columns df_empty_def)

theorem check_write_df_column_count_fails_witness:
  "0 < index_len frame3 \<and> columns frame3 \<noteq> [] \<and> length (columns frame3) \<noteq> 5 \<and>
   fst (check_write_df quiet_world bare_object state0 frame3) =
     Inl (Exn IndexError (column_count_msg 3)) \<and>
   raw_data (db (snd (snd (check_write_df quiet_world bare_object state0 frame3)))) = []"
proof -
  have h0: "0 < index_len frame3" by (simp add: frame3_def)
  have h1: "columns frame3 \<noteq> []" by (simp add: frame3_def)
  have h2: "length (columns frame3) \<noteq> 5" by (simp add: frame3_def)
  have l: "length (columns frame3) = 3" by (simp add: frame3_def)
  have r: "raw_data (db state0) = []" by (simp add: state0_def)
  show ?thesis
    using check_write_df_column_count_fails [OF h0 h1 h2, of quiet_world bare_object state0]
      h0 h1 h2 l r
    by simp
qed

text \<open>
  Claim C5. On an empty frame \<^const>\<open>check_write_df\<close> returns normally; the only change
  is one record at info severity, so the database is untouched, and the frame is as it
  was.
\<close>

theorem check_write_df_empty_noop:
  "df_empty df \<Longrightarrow>
   check_write_df w self st df =
     (Inr (), df, st\<lparr>log := log st @ [(INFO, ''Empty DataFrame'')]\<rparr>) \<and>
   db (snd (snd (check_write_df w self st df))) = db st"
  by (simp add: check_write_df_def log_msg_def)

theorem check_write_df_empty_noop_witness:
  "df_empty frame0 \<and>
   check_write_df quiet_world bare_object state0 frame0 =
     (Inr (), frame0, state0\<lparr>log := [(INFO, ''Empty DataFrame'')]\<rparr>) \<and>
   db (snd (snd (check_write_df quiet_world bare_object state0 frame0))) = \<lparr>raw_data = []\<rparr>"
proof -
  have h: "df_empty frame0" by (simp add: frame0_def df_empty_def)
  have l: "log state0 = []" and d: "db state0 = \<lparr>raw_data = []\<rparr>"
    by (simp_all add: state0_def)
  show ?thesis
    using check_write_df_empty_noop [OF h, of quiet_world bare_object state0] h l d
    by simp
qed

text \<open>
  Claim C10. On the wrong-column-count path the result does not depend on the world
  (neither \<^verbatim>\<open>pd.to_datetime\<close> nor the database has been consulted), and both the frame
  and the whole state, the table \<^verbatim>\<open>raw_data\<close> included, are unchanged.
\<close>

theorem check_write_df_column_error_frame:
  "\<not> df_empty df \<Longrightarrow> length (columns df) \<noteq> 5 \<Longrightarrow>
   check_write_df w self st df = check_write_df w' self st df \<and>
   fst (snd (check_write_df w self st df)) = df \<and>
   snd (snd (check_write_df w self st df)) = st"
  by (simp add: check_write_df_wrong_columns)

theorem check_write_df_column_error_frame_witness:
  "\<not> df_empty frame3 \<and> length (columns frame3) \<noteq> 5 \<and>
   check_write_df quiet_world bare_object state0 frame3 =
     check_write_df (quiet_world\<lparr>to_datetime := (\<lambda>col. Inl (Exn ValueError ''bad date''))\<rparr>)
       bare_object state0 frame3 \<and>
   fst (snd (check_write_df quiet_world bare_object state0 frame3)) = frame3 \<and>
   snd (snd (check_write_df quiet_world bare_object state0 frame3)) = state0"
proof -
  have h1: "\<not> df_empty frame3" by (simp add: frame3_def df_empty_def)
  have h2: "length (columns frame3) \<noteq> 5" by (simp add: frame3_def)
  show ?thesis
    using check_write_df_column_error_frame
      [OF h1 h2, of quiet_world bare_object state0
         "quiet_world\<lparr>to_datetime := (\<lambda>col. Inl (Exn ValueError ''bad date''))\<rparr>"]
      h1 h2
    by blast
qed

section \<open>Properties of post\_processing\<close>

text \<open>
  Claim C8. When the statement reading \<^verbatim>\<open>data.final_table\<close> returns no rows,
  \<^const>\<open>post_processing\<close> raises \<^verbatim>\<open>ValueError\<close> and no file has been written: the files
  are those from before the call.
\<close>

theorem post_processing_empty_view:
  "execute w select_final (db st) = Inr (Rows [], d) \<Longrightarrow>
   fst (post_processing w self st) = Inl (Exn ValueError ''No data in view, please check'') \<and>
   files (snd (post_processing w self st)) = files st"
  by (simp add: post_processing_def query_local_db_def log_msg_def)

theorem post_processing_empty_view_witness:
  "execute quiet_world select_final (db state0) = Inr (Rows [], db state0) \<and>
   fst (post_processing quiet_world bare_object state0) =
     Inl (Exn ValueError ''No data in view, please check'') \<and>
   files (snd (post_processing quiet_world bare_object state0)) = files state0"
  using post_processing_empty_view [of quiet_world state0 "db state0" bare_object]
  by (simp add: quiet_world_def)

section \<open>What each step leaves unchanged\<close>

lemma convert_columns_frame:
  "convert_columns w keys df st = (r, df', st') \<Longrightarrow>
   heap st' = heap st \<and> requests st' = requests st \<and> files st' = files st \<and> db st' = db st"
  by (induction w keys df st rule: convert_columns.induct)
     (auto simp: log_msg_def split: option.splits sum.splits)

lemma check_write_df_frame:
  "check_write_df w self st df = (r, df', st') \<Longrightarrow>
   heap st' = heap st \<and> requests st' = requests st \<and> files st' = files st"
  by (auto simp: check_write_df_def Let_def log_msg_def to_sql_def
      split: if_splits option.splits sum.splits prod.splits dest: convert_columns_frame)

lemma query_local_db_frame:
  "query_local_db w q st = (r, st') \<Longrightarrow>
   heap st' = heap st \<and> requests st' = requests st \<and> files st' = files st"
  by (auto simp: query_local_db_def log_msg_def split: sum.splits prod.splits if_splits)

lemma get_api_data_frame:
  "get_api_data w self ap st = (r, st') \<Longrightarrow>
   heap st' = heap st \<and> files st' = files st \<and> db st' = db st \<and> log st' = log st"
  by (auto simp: get_api_data_def split: option.splits)

lemma post_processing_frame:
  "post_processing w self st = (r, st') \<Longrightarrow> heap st' = heap st \<and> requests st' = requests st"
  by (auto simp: post_processing_def Let_def log_msg_def
      split: sum.splits prod.splits if_splits option.splits dest!: query_local_db_frame)

lemma page_frame_refl: "heap st' = heap st \<Longrightarrow> page_frame ap st st'"
  by (simp add: page_frame_def only_page_changed_def)

lemma page_frame_trans:
  "page_frame ap st st1 \<Longrightarrow> page_frame ap st1 st2 \<Longrightarrow> page_frame ap st st2"
  unfolding page_frame_def only_page_changed_def by (metis fun_upd_upd)

lemma map_of_Some_key: "map_of al k = Some v \<Longrightarrow> k \<in> fst ` set al"
  by (metis domI dom_map_of_conv_image_fst)

lemma increment_page_frame:
  "increment_page ap st = (r, st') \<Longrightarrow>
   page_frame ap st st' \<and> files st' = files st \<and> requests st' = requests st"
  by (auto simp: increment_page_def page_frame_def only_page_changed_def
      AList.delete_update_same AList.update_keys map_of_Some_key
      split: option.splits pyval.splits)

text \<open>
  Whenever the loop ends, by \<^verbatim>\<open>break\<close> or by an exception, no file was written and the
  store differs from the one it started with at most in the \<^verbatim>\<open>page\<close> entry of the dict
  passed as parameters.
\<close>

lemma page_loop_frame:
  assumes "page_loop w self ap st = Some y"
  shows "files (snd y) = files st \<and> page_frame ap st (snd y)"
proof (rule page_loop.raw_induct
    [where P = "\<lambda>w self ap st y. files (snd y) = files st \<and> page_frame ap st (snd y)",
      OF _ assms], goal_cases)
  case (1 loop w self ap st y)
  obtain r0 st1 where g: "get_api_data w self ap st = (r0, st1)"
    by (cases "get_api_data w self ap st")
  note gf = get_api_data_frame [OF g]
  show ?case
  proof (cases r0)
    case (Inl e)
    with 1(2) g gf show ?thesis by (auto simp: page_frame_refl)
  next
    case (Inr p)
    obtain df info where p: "p = (df, info)" by (cases p)
    obtain r1 df' st2
      where c: "check_write_df w self (log_msg INFO (fetched_msg info df) st1) df = (r1, df', st2)"
      by (cases "check_write_df w self (log_msg INFO (fetched_msg info df) st1) df")
    from check_write_df_frame [OF c] gf
    have f2: "heap st2 = heap st" "files st2 = files st" by (simp_all add: log_msg_def)
    show ?thesis
    proof (cases r1)
      case (Inl e)
      with 1(2) g Inr p c f2 show ?thesis by (auto simp: page_frame_refl)
    next
      case r1: (Inr u)
      show ?thesis
      proof (cases "page_info.total info \<le> page info * per_page info")
        case True
        with 1(2) g Inr p c r1 f2 show ?thesis by (auto simp: page_frame_refl log_msg_def)
      next
        case False
        obtain r3 st3 where i: "increment_page ap st2 = (r3, st3)"
          by (cases "increment_page ap st2")
        from increment_page_frame [OF i] f2
        have f3: "page_frame ap st st3" "files st3 = files st"
          by (auto simp: page_frame_def)
        show ?thesis
        proof (cases r3)
          case (Inl e)
          with 1(2) g Inr p c r1 False i f3 show ?thesis by auto
        next
          case r3: (Inr u')
          from 1(2) g Inr p c r1 False i r3 have "loop w self ap st3 = Some y" by simp
          from 1(1) [OF this] f3 show ?thesis by (auto intro: page_frame_trans)
        qed
      qed
    qed
  qed
qed

section \<open>Properties of the page loop\<close>





section \<open>Properties of main\<close>

text \<open>
  Claim C2, as stated, fails. In the two-page run the configuration read back at the end
  is not the one the run started with: the section \<^verbatim>\<open>api_filters\<close> holds \<^verbatim>\<open>page\<close> = 2
  where it held 1, because line 209 binds the section's own dict and line 234 updates it
  in place.
\<close>

theorem Truvi_main_rewrites_api_filters:
  "read_config (config_refs run_config) run_start = run_config \<and>
   config_after paged_world run_object (config_refs run_config) run_start =
     Some (AList.update ''api_filters'' [(''page'', PyInt 2), (''per_page'', PyInt 2)]
             run_config) \<and>
   config_after paged_world run_object (config_refs run_config) run_start \<noteq> Some run_config"
  by code_simp

text \<open>
  Claim C2, amended. When \<^verbatim>\<open>main\<close> ends, every dict of the store is as it was at the
  start, except possibly the one the attribute \<^verbatim>\<open>api_filters\<close> refers to; that one has
  the same keys in the same order and the same value under every key but \<^verbatim>\<open>page\<close>.
\<close>

theorem Truvi_main_changes_only_page:
  assumes run: "Truvi_main w self st = Some (r, st')"
  shows "heap st' a = heap st a \<or>
         (map_of (attrs self) ''api_filters'' = Some a \<and>
          only_page_changed (heap st a) (heap st' a))"
proof (cases "map_of (attrs self) ''api_filters''")
  case None
  with run show ?thesis by (simp add: Truvi_main_def)
next
  case (Some ap)
  from run Some obtain out st1 where body: "try_body w self ap st = Some (out, st1)"
    and h': "heap st' = heap st1"
    by (auto simp: Truvi_main_def log_msg_def split: option.splits sum.splits prod.splits)
  have "page_frame ap st st1"
  proof -
    obtain q s where q: "query_local_db w truncate_raw st = (q, s)"
      by (cases "query_local_db w truncate_raw st")
    note qf = query_local_db_frame [OF q]
    show ?thesis
    proof (cases q)
      case (Inl e)
      with body q qf show ?thesis by (auto simp: try_body_def page_frame_refl)
    next
      case (Inr res)
      with body q obtain y where y: "page_loop w self ap s = Some y"
        by (auto simp: try_body_def split: option.splits)
      from page_loop_frame [OF y] qf have pf: "page_frame ap st (snd y)"
        by (simp add: page_frame_def)
      obtain o2 s2 where y2: "y = (o2, s2)" by (cases y)
      show ?thesis
      proof (cases o2)
        case (Inl e)
        with body q Inr y y2 pf show ?thesis by (auto simp: try_body_def)
      next
        case i2: (Inr u)
        obtain o3 s3 where p: "post_processing w self s2 = (o3, s3)"
          by (cases "post_processing w self s2")
        from post_processing_frame [OF p] have "heap s3 = heap s2" by simp
        with body q Inr y y2 i2 p pf show ?thesis
          by (auto simp: try_body_def page_frame_def)
      qed
    qed
  qed
  with h' Some show ?thesis
    by (cases "a = ap") (auto simp: page_frame_def dest: fun_cong [where x = a])
qed

theorem Truvi_main_changes_only_page_witness:
  "Truvi_main paged_world run_object run_start = Some (Inr (), run_end) \<and>
   heap run_end 1 = heap run_start 1 \<and>
   heap run_end 2 \<noteq> heap run_start 2 \<and>
   map_of (attrs run_object) ''api_filters'' = Some 2 \<and>
   only_page_changed (heap run_start 2) (heap run_end 2)"
proof -
  have n: "\<not> Option.is_none (Truvi_main paged_world run_object run_start)" by code_simp
  have o: "fst (the (Truvi_main paged_world run_object run_start)) = Inr ()" by code_simp
  have run: "Truvi_main paged_world run_object run_start = Some (Inr (), run_end)"
    using n o unfolding run_end_def
    by (cases "Truvi_main paged_world run_object run_start") (auto simp: Option.is_none_def)
  have af: "map_of (attrs run_object) ''api_filters'' = Some 2" by code_simp
  have d: "heap run_end 2 \<noteq> heap run_start 2" by code_simp
  show ?thesis
    using Truvi_main_changes_only_page [OF run, of 1]
      Truvi_main_changes_only_page [OF run, of 2] run af d
    by simp
qed




end
